theory Spec2Isabelle
  imports Main "HOL-Library.Sublist"
begin

section \<open>Header metadata (osmium/io/header.hpp)\<close>

text \<open>
  The class \<open>Header\<close> has four private members. The type of the bounding box,
  \<open>osmium::Bounds\<close>, is declared in osm/bounds.hpp; no member function of \<open>Header\<close>
  looks inside it, so it is the type parameter \<open>'b\<close>.
\<close>

record 'b Header =
  m_bounds :: 'b
  m_has_multiple_object_versions :: bool
  m_generator :: string
  m_pbf_has_dense_nodes :: bool

text \<open>
  \<open>Header() = default\<close>: the two flags have the in-class initialiser \<open>false\<close>, the
  string is default-constructed (empty), and the bounds are default-constructed. The
  default-constructed value of the bounds type is the parameter \<open>b0\<close>.
\<close>

definition Header_default :: "'b \<Rightarrow> 'b Header" where
  "Header_default b0 =
     \<lparr>m_bounds = b0,
      m_has_multiple_object_versions = False,
      m_generator = [],
      m_pbf_has_dense_nodes = False\<rparr>"

text \<open>
  The setters assign to a member of \<open>*this\<close> and return \<open>*this\<close> by reference. Header
  objects therefore live in a store, addressed by \<open>this\<close>; every member function takes the
  store and returns its result together with the store it leaves behind.
\<close>

type_synonym 'b header_store = "nat \<Rightarrow> 'b Header"

definition bounds :: "nat \<Rightarrow> 'b header_store \<Rightarrow> 'b \<times> 'b header_store" where
  "bounds this s = (m_bounds (s this), s)"

definition bounds_set :: "'b \<Rightarrow> nat \<Rightarrow> 'b header_store \<Rightarrow> nat \<times> 'b header_store" where
  "bounds_set b this s = (this, s(this := (s this)\<lparr>m_bounds := b\<rparr>))"

definition has_multiple_object_versions ::
  "nat \<Rightarrow> 'b header_store \<Rightarrow> bool \<times> 'b header_store" where
  "has_multiple_object_versions this s = (m_has_multiple_object_versions (s this), s)"

definition has_multiple_object_versions_set ::
  "bool \<Rightarrow> nat \<Rightarrow> 'b header_store \<Rightarrow> nat \<times> 'b header_store" where
  "has_multiple_object_versions_set h this s =
     (this, s(this := (s this)\<lparr>m_has_multiple_object_versions := h\<rparr>))"

definition generator :: "nat \<Rightarrow> 'b header_store \<Rightarrow> string \<times> 'b header_store" where
  "generator this s = (m_generator (s this), s)"

definition generator_set :: "string \<Rightarrow> nat \<Rightarrow> 'b header_store \<Rightarrow> nat \<times> 'b header_store" where
  "generator_set g this s = (this, s(this := (s this)\<lparr>m_generator := g\<rparr>))"

definition pbf_has_dense_nodes :: "nat \<Rightarrow> 'b header_store \<Rightarrow> bool \<times> 'b header_store" where
  "pbf_has_dense_nodes this s = (m_pbf_has_dense_nodes (s this), s)"

definition pbf_has_dense_nodes_set ::
  "bool \<Rightarrow> nat \<Rightarrow> 'b header_store \<Rightarrow> nat \<times> 'b header_store" where
  "pbf_has_dense_nodes_set h this s =
     (this, s(this := (s this)\<lparr>m_pbf_has_dense_nodes := h\<rparr>))"

section \<open>Parser factory (osmium/io/detail/input_format.hpp)\<close>

datatype exception = runtime_error string | promise_already_satisfied

text \<open>
  \<open>osmium::io::File\<close> is declared in io/file.hpp. \<open>get_creator_function\<close> reads its
  \<open>filename()\<close> and its \<open>format()\<close>; the enumeration \<open>file_format\<close> (io/file_format.hpp)
  is the type parameter \<open>'f\<close>, and its \<open>as_string\<close> is a parameter of
  \<open>get_creator_function\<close>.
\<close>

record 'f File =
  filename :: string
  format :: 'f

text \<open>
  \<open>m_callbacks\<close> is a \<open>std::map\<close> from format to creator function; the creator functions
  are values of the type parameter \<open>'c\<close>.
\<close>

record ('f, 'c) ParserFactory =
  m_callbacks :: "'f \<rightharpoonup> 'c"

text \<open>\<open>ParserFactory()\<close> initialises \<open>m_callbacks\<close> to the empty map.\<close>

definition ParserFactory_init :: "('f, 'c) ParserFactory" where
  "ParserFactory_init = \<lparr>m_callbacks = Map.empty\<rparr>"

text \<open>
  \<open>std::map::insert\<close>: inserts the pair if the key is absent. The second component of
  its result says whether the insertion took place.
\<close>

definition map_insert :: "'k \<Rightarrow> 'v \<Rightarrow> ('k \<rightharpoonup> 'v) \<Rightarrow> ('k \<rightharpoonup> 'v) \<times> bool" where
  "map_insert k v m = (case m k of None \<Rightarrow> (m(k \<mapsto> v), True) | Some _ \<Rightarrow> (m, False))"

definition register_parser ::
  "'f \<Rightarrow> 'c \<Rightarrow> ('f, 'c) ParserFactory \<Rightarrow> bool \<times> ('f, 'c) ParserFactory" where
  "register_parser fmt create_function fac =
     (let (m, second) = map_insert fmt create_function (m_callbacks fac);
          fac' = fac\<lparr>m_callbacks := m\<rparr>
      in if \<not> second then (False, fac') else (True, fac'))"

definition get_creator_function ::
  "('f \<Rightarrow> string) \<Rightarrow> 'f File \<Rightarrow> ('f, 'c) ParserFactory \<Rightarrow> exception + 'c" where
  "get_creator_function as_string file fac =
     (case m_callbacks fac (format file) of
        None \<Rightarrow>
          Inl (runtime_error
                 (''Can not open file '' @ [CHR 0x27] @
                  filename file @
                  [CHR 0x27] @ '' with type '' @ [CHR 0x27] @
                  as_string (format file) @
                  [CHR 0x27] @ ''. No support for reading this format in this program.''))
      | Some create_function \<Rightarrow> Inr create_function)"

section \<open>Parser (osmium/io/detail/input_format.hpp)\<close>

subsection \<open>Promises, buffers and queues\<close>

text \<open>
  The shared state of a \<open>std::promise\<close>/\<open>std::future\<close> pair: not yet set, set to a
  value, or set to an exception. \<open>set_value\<close> and \<open>set_exception\<close> store into a shared
  state that is still pending and throw \<open>std::future_error\<close>
  (\<open>promise_already_satisfied\<close>) otherwise.
\<close>

datatype 'a shared_state = Pending | Ready 'a | Failed exception

definition set_value :: "'a \<Rightarrow> 'a shared_state \<Rightarrow> exception + 'a shared_state" where
  "set_value v st = (case st of Pending \<Rightarrow> Inr (Ready v) | _ \<Rightarrow> Inl promise_already_satisfied)"

definition set_exception :: "exception \<Rightarrow> 'a shared_state \<Rightarrow> exception + 'a shared_state" where
  "set_exception e st = (case st of Pending \<Rightarrow> Inr (Failed e) | _ \<Rightarrow> Inl promise_already_satisfied)"

text \<open>
  Modelled from the spec: \<open>osmium::memory::Buffer\<close> is declared in memory/buffer.hpp,
  which is not among the sources. The spec describes a batch as an ordered collection of
  decoded entities that may hold none; \<open>Buffer{}\<close> is the batch that holds none.
\<close>

datatype Buffer = Buffer (entities: "string list")

definition Buffer_default :: Buffer where
  "Buffer_default = Buffer []"

text \<open>
  The class holds references to the input queue, the output queue and the header promise,
  and two flags of its own. The input queue is the sequence of chunks the producer
  supplies, the next one first; when it is empty nothing more will arrive. The output
  queue is the sequence of futures pushed so far, the oldest first; every future is pushed
  and then fulfilled in the same function, and a consumer can read a future only through
  what it resolves to, so the queue holds the resolved shared states.
  \<open>osmium::osm_entity_bits::type\<close> is declared in osm/entity_bits.hpp; no function here
  reads \<open>m_read_types\<close>, it is a number.

  The field \<open>history\<close> is not a member of the class. It logs, in program order, every
  effect on the three shared objects, so that the order of effects on different objects can
  be stated.
\<close>

datatype 'b event =
    is_Header_resolved: Header_resolved "'b Header shared_state"
  | is_Output_pushed: Output_pushed "Buffer shared_state"
  | is_Input_popped: Input_popped string

record 'b Parser =
  m_input_queue :: "string list"
  m_output_queue :: "Buffer shared_state list"
  m_header_promise :: "'b Header shared_state"
  m_read_types :: nat
  m_header_is_done :: bool
  m_input_queue_done :: bool
  history :: "'b event list"

text \<open>
  A member function returns, throws an exception, or blocks for ever in
  \<open>wait_and_pop\<close>; each outcome carries the state reached.
\<close>

datatype 'p outcome =
    Returns (state_of: 'p)
  | Throws (thrown: exception) (state_of: 'p)
  | Blocks (state_of: 'p)

text \<open>The constructor binds the three shared objects and clears both flags.\<close>

definition Parser_init ::
  "string list \<Rightarrow> Buffer shared_state list \<Rightarrow> 'b Header shared_state \<Rightarrow> nat \<Rightarrow> 'b Parser" where
  "Parser_init input_queue output_queue header_promise read_types =
     \<lparr>m_input_queue = input_queue,
      m_output_queue = output_queue,
      m_header_promise = header_promise,
      m_read_types = read_types,
      m_header_is_done = False,
      m_input_queue_done = False,
      history = []\<rparr>"

text \<open>
  Modelled from the spec: \<open>osmium::thread::Queue\<close> is declared in thread/queue.hpp, which
  is not among the sources. The spec describes a blocking FIFO queue: \<open>wait_and_pop\<close> on
  \<open>m_input_queue\<close> takes the oldest chunk and blocks while there is none (\<open>None\<close>: it
  blocks for ever, since nothing more arrives); \<open>push\<close> on \<open>m_output_queue\<close> appends.
\<close>

definition wait_and_pop :: "'b Parser \<Rightarrow> (string \<times> 'b Parser) option" where
  "wait_and_pop p =
     (case m_input_queue p of
        [] \<Rightarrow> None
      | s # rest \<Rightarrow>
          Some (s, p\<lparr>m_input_queue := rest, history := history p @ [Input_popped s]\<rparr>))"

definition push :: "Buffer shared_state \<Rightarrow> 'b Parser \<Rightarrow> 'b Parser" where
  "push x p = p\<lparr>m_output_queue := m_output_queue p @ [x], history := history p @ [Output_pushed x]\<rparr>"

text \<open>\<open>m_header_promise.set_value\<close> and \<open>m_header_promise.set_exception\<close>.\<close>

definition header_set_value :: "'b Header \<Rightarrow> 'b Parser \<Rightarrow> 'b Parser outcome" where
  "header_set_value h p =
     (case set_value h (m_header_promise p) of
        Inl e \<Rightarrow> Throws e p
      | Inr st \<Rightarrow> Returns (p\<lparr>m_header_promise := st, history := history p @ [Header_resolved st]\<rparr>))"

definition header_set_exception :: "exception \<Rightarrow> 'b Parser \<Rightarrow> 'b Parser outcome" where
  "header_set_exception e p =
     (case set_exception e (m_header_promise p) of
        Inl e' \<Rightarrow> Throws e' p
      | Inr st \<Rightarrow> Returns (p\<lparr>m_header_promise := st, history := history p @ [Header_resolved st]\<rparr>))"

subsection \<open>Member functions\<close>

text \<open>
  \<open>drain_queue\<close>: a do-while loop that pops a chunk and stops after popping an empty one.
\<close>

function drain_queue :: "'b Parser \<Rightarrow> 'b Parser outcome" where
  "drain_queue p =
     (case wait_and_pop p of
        None \<Rightarrow> Blocks p
      | Some (s, p') \<Rightarrow> if s \<noteq> [] then drain_queue p' else Returns p')"
  by pat_completeness auto
termination
  by (relation "measure (\<lambda>p. length (m_input_queue p))")
     (auto simp: wait_and_pop_def split: list.splits)

declare drain_queue.simps [simp del]

text \<open>
  \<open>send_exception\<close> and \<open>send_to_output_queue\<close> make a promise, push its future and
  fulfil the promise, with the exception or with the buffer. The promise is new, so
  fulfilling it does not throw.
\<close>

definition send_exception :: "exception \<Rightarrow> 'b Parser \<Rightarrow> 'b Parser" where
  "send_exception exception p = push (Failed exception) p"

definition send_to_output_queue :: "Buffer \<Rightarrow> 'b Parser \<Rightarrow> 'b Parser" where
  "send_to_output_queue buffer p = push (Ready buffer) p"

text \<open>
  \<open>operator()\<close>. The pure virtual \<open>run()\<close> is the parameter \<open>run\<close>. The inner \<open>case\<close> is
  the try block with its handler: an exception of \<open>run\<close> is caught, the header promise is
  failed if \<open>m_header_is_done\<close> is not set, and the exception is sent to the output queue;
  an exception thrown by \<open>set_exception\<close> inside the handler leaves \<open>operator()\<close>. What
  follows the try block runs only if the block was left normally.
\<close>

definition operator_call ::
  "('b Parser \<Rightarrow> 'b Parser outcome) \<Rightarrow> 'b Parser \<Rightarrow> 'b Parser outcome" where
  "operator_call run p =
     (case
        (case run p of
           Throws exception p1 \<Rightarrow>
             (case
                (if \<not> m_header_is_done p1
                 then header_set_exception exception (p1\<lparr>m_header_is_done := True\<rparr>)
                 else Returns p1)
              of Returns p2 \<Rightarrow> Returns (send_exception exception p2)
               | escaped \<Rightarrow> escaped)
         | finished \<Rightarrow> finished)
      of Returns p3 \<Rightarrow>
           (let p4 = send_to_output_queue Buffer_default p3
            in if \<not> m_input_queue_done p4 then drain_queue p4 else Returns p4)
       | stopped \<Rightarrow> stopped)"

subsection \<open>Describing what the drain loop does\<close>

text \<open>
  The chunks that \<open>drain_queue\<close> pops from a queue (all up to and including the first
  empty one) and the chunks it leaves.
\<close>

definition discarded :: "string list \<Rightarrow> string list" where
  "discarded q = takeWhile (\<lambda>s. s \<noteq> []) q @ take 1 (dropWhile (\<lambda>s. s \<noteq> []) q)"

definition left_over :: "string list \<Rightarrow> string list" where
  "left_over q = drop 1 (dropWhile (\<lambda>s. s \<noteq> []) q)"

text \<open>
  \<open>m_header_is_done\<close> is the parser's record of whether the header promise has been
  resolved: format implementations and the handler in \<open>operator()\<close> set it together with
  the promise.
\<close>

definition header_flag_ok :: "'b Parser \<Rightarrow> bool" where
  "header_flag_ok p = (m_header_is_done p = (m_header_promise p \<noteq> Pending))"

subsection \<open>Example decoders\<close>

text \<open>
  Modelled from the spec: the format implementations of \<open>run()\<close> are not among the
  sources. These decoders follow the spec's decoder contract and its test scenarios,
  written with the members the class gives them.

  \<open>failing_decoder\<close> fails upon processing the second chunk (drain guarantee).
  \<open>resolve_header\<close> resolves the header unless that has been done, and sets
  \<open>m_header_is_done\<close>. \<open>trivial_decoder\<close> emits one single-entity batch per non-empty
  chunk and resolves the header after the first chunk with generator \<open>test\<close> (at the end
  of input with a default header, if there was no chunk). \<open>two_batches_then_fail\<close>
  resolves the header, emits two batches and fails.
\<close>

definition failing_decoder :: "'b Parser \<Rightarrow> 'b Parser outcome" where
  "failing_decoder p =
     (case wait_and_pop p of
        None \<Rightarrow> Blocks p
      | Some (s1, p1) \<Rightarrow>
          (case wait_and_pop p1 of
             None \<Rightarrow> Blocks p1
           | Some (s2, p2) \<Rightarrow> Throws (runtime_error ''decode error'') p2))"





subsection \<open>Subclasses outside the decoder contract\<close>

text \<open>
  The header promise and both flags are protected members, and \<open>run()\<close> is any body a
  subclass gives it. The bodies below are not decoders of the spec; they are subclasses the
  class admits, and show what \<open>operator()\<close> does with them.

  \<open>silent_decoder\<close> reads one chunk, notes the end of input if that chunk is the
  sentinel, and returns without resolving the header. \<open>unflagged_header_decoder\<close>
  resolves the header promise but leaves \<open>m_header_is_done\<close> unset, emits one batch and
  fails. \<open>early_done_decoder\<close> sets \<open>m_input_queue_done\<close> without having read a chunk
  and fails. \<open>early_header_done_decoder\<close> sets \<open>m_header_is_done\<close> without resolving
  the header promise and fails.
\<close>

definition silent_decoder :: "'b Parser \<Rightarrow> 'b Parser outcome" where
  "silent_decoder p =
     (case wait_and_pop p of
        None \<Rightarrow> Blocks p
      | Some (s, p1) \<Rightarrow> Returns (if s = [] then p1\<lparr>m_input_queue_done := True\<rparr> else p1))"

definition unflagged_header_decoder :: "'b \<Rightarrow> 'b Parser \<Rightarrow> 'b Parser outcome" where
  "unflagged_header_decoder b0 p =
     (case header_set_value ((Header_default b0)\<lparr>m_generator := ''test''\<rparr>) p of
        Returns p1 \<Rightarrow>
          Throws (runtime_error ''decode error'')
            (send_to_output_queue (Buffer [''node 1'']) p1)
      | stopped \<Rightarrow> stopped)"

definition early_done_decoder :: "'b Parser \<Rightarrow> 'b Parser outcome" where
  "early_done_decoder p =
     Throws (runtime_error ''decode error'') (p\<lparr>m_input_queue_done := True\<rparr>)"


section \<open>Header: defaults and frame properties\<close>

text \<open>
  C8. A default-constructed header, placed at any address of the store, answers
  \<open>has_multiple_object_versions()\<close> and \<open>pbf_has_dense_nodes()\<close> with false, \<open>generator()\<close>
  with the empty string and \<open>bounds()\<close> with the default-constructed bounds.
\<close>

theorem Header_default_getters:
  "fst (has_multiple_object_versions a (s(a := Header_default b0))) = False \<and>
   fst (pbf_has_dense_nodes a (s(a := Header_default b0))) = False \<and>
   fst (generator a (s(a := Header_default b0))) = [] \<and>
   fst (bounds a (s(a := Header_default b0))) = b0"
  by (simp add: Header_default_def has_multiple_object_versions_def
      pbf_has_dense_nodes_def generator_def bounds_def)

text \<open>
  C9. Each of the four setters returns the address it was called on, changes in the store
  only the object at that address, and in that object only its own member, which then
  holds the argument; each getter returns the store unchanged.
\<close>

theorem Header_setters_frame:
  "(fst (bounds_set b this s) = this \<and>
    snd (bounds_set b this s) = s(this := (s this)\<lparr>m_bounds := b\<rparr>) \<and>
    m_bounds (snd (bounds_set b this s) this) = b \<and>
    m_has_multiple_object_versions (snd (bounds_set b this s) this)
      = m_has_multiple_object_versions (s this) \<and>
    m_generator (snd (bounds_set b this s) this) = m_generator (s this) \<and>
    m_pbf_has_dense_nodes (snd (bounds_set b this s) this) = m_pbf_has_dense_nodes (s this)) \<and>
   (fst (has_multiple_object_versions_set h this s) = this \<and>
    snd (has_multiple_object_versions_set h this s)
      = s(this := (s this)\<lparr>m_has_multiple_object_versions := h\<rparr>) \<and>
    m_has_multiple_object_versions (snd (has_multiple_object_versions_set h this s) this) = h \<and>
    m_bounds (snd (has_multiple_object_versions_set h this s) this) = m_bounds (s this) \<and>
    m_generator (snd (has_multiple_object_versions_set h this s) this) = m_generator (s this) \<and>
    m_pbf_has_dense_nodes (snd (has_multiple_object_versions_set h this s) this)
      = m_pbf_has_dense_nodes (s this)) \<and>
   (fst (generator_set g this s) = this \<and>
    snd (generator_set g this s) = s(this := (s this)\<lparr>m_generator := g\<rparr>) \<and>
    m_generator (snd (generator_set g this s) this) = g \<and>
    m_bounds (snd (generator_set g this s) this) = m_bounds (s this) \<and>
    m_has_multiple_object_versions (snd (generator_set g this s) this)
      = m_has_multiple_object_versions (s this) \<and>
    m_pbf_has_dense_nodes (snd (generator_set g this s) this)
      = m_pbf_has_dense_nodes (s this)) \<and>
   (fst (pbf_has_dense_nodes_set d this s) = this \<and>
    snd (pbf_has_dense_nodes_set d this s) = s(this := (s this)\<lparr>m_pbf_has_dense_nodes := d\<rparr>) \<and>
    m_pbf_has_dense_nodes (snd (pbf_has_dense_nodes_set d this s) this) = d \<and>
    m_bounds (snd (pbf_has_dense_nodes_set d this s) this) = m_bounds (s this) \<and>
    m_has_multiple_object_versions (snd (pbf_has_dense_nodes_set d this s) this)
      = m_has_multiple_object_versions (s this) \<and>
    m_generator (snd (pbf_has_dense_nodes_set d this s) this) = m_generator (s this)) \<and>
   (snd (bounds this s) = s \<and>
    snd (has_multiple_object_versions this s) = s \<and>
    snd (generator this s) = s \<and>
    snd (pbf_has_dense_nodes this s) = s)"
  by (simp add: bounds_set_def has_multiple_object_versions_set_def generator_set_def
      pbf_has_dense_nodes_set_def bounds_def has_multiple_object_versions_def generator_def
      pbf_has_dense_nodes_def)

section \<open>Parser factory: registration and lookup\<close>

text \<open>
  C6. Registering a creator function for a format that the factory does not hold returns
  true and stores it. Registering another creator function for the same format afterwards
  returns false and leaves the factory as it was, so that looking the format up still
  returns the first creator function.
\<close>

theorem register_parser_no_overwrite:
  assumes "m_callbacks fac F = None"
  shows "register_parser F f1 fac = (True, fac\<lparr>m_callbacks := (m_callbacks fac)(F \<mapsto> f1)\<rparr>) \<and>
         register_parser F f2 (snd (register_parser F f1 fac))
           = (False, snd (register_parser F f1 fac)) \<and>
         (format file = F \<longrightarrow>
            get_creator_function as_string file
              (snd (register_parser F f2 (snd (register_parser F f1 fac)))) = Inr f1)"
  using assms by (simp add: register_parser_def map_insert_def get_creator_function_def)

theorem register_parser_no_overwrite_witness:
  "register_parser (2::nat) (10::nat) ParserFactory_init
     = (True, ParserFactory_init\<lparr>m_callbacks := (m_callbacks ParserFactory_init)(2 \<mapsto> 10)\<rparr>) \<and>
   register_parser 2 20 (snd (register_parser (2::nat) (10::nat) ParserFactory_init))
     = (False, snd (register_parser 2 10 ParserFactory_init)) \<and>
   get_creator_function (\<lambda>_. ''PBF'') \<lparr>filename = ''a.osm.pbf'', format = 2\<rparr>
     (snd (register_parser 2 20 (snd (register_parser (2::nat) (10::nat) ParserFactory_init))))
     = Inr 10"
proof -
  have absent: "m_callbacks (ParserFactory_init :: (nat, nat) ParserFactory) 2 = None"
    by (simp add: ParserFactory_init_def)
  have same: "format \<lparr>filename = ''a.osm.pbf'', format = 2::nat\<rparr> = 2"
    by simp
  from register_parser_no_overwrite
    [OF absent, of 10 20 "\<lparr>filename = ''a.osm.pbf'', format = 2\<rparr>" "\<lambda>_. ''PBF''"] same
  show ?thesis by blast
qed

text \<open>
  C7. Looking up the creator function for a file whose format is not registered fails with
  a \<open>runtime_error\<close> whose message contains the file name and the format's display name,
  each as a contiguous piece; for a registered format the stored creator function is
  returned.
\<close>

theorem get_creator_function_result:
  "(m_callbacks fac (format file) = None \<longrightarrow>
      (\<exists>msg. get_creator_function as_string file fac = Inl (runtime_error msg) \<and>
             sublist (filename file) msg \<and>
             sublist (as_string (format file)) msg)) \<and>
   (m_callbacks fac (format file) = Some c \<longrightarrow>
      get_creator_function as_string file fac = Inr c)"
proof (intro conjI impI)
  assume absent: "m_callbacks fac (format file) = None"
  let ?a = "''Can not open file '' @ [CHR 0x27]"
  let ?b = "[CHR 0x27] @ '' with type '' @ [CHR 0x27]"
  let ?c = "[CHR 0x27] @ ''. No support for reading this format in this program.''"
  let ?msg = "?a @ filename file @ ?b @ as_string (format file) @ ?c"
  have res: "get_creator_function as_string file fac = Inl (runtime_error ?msg)"
    using absent by (simp add: get_creator_function_def)
  have name: "sublist (filename file) ?msg"
    by (rule sublist_appendI)
  have "?msg = (?a @ filename file @ ?b) @ as_string (format file) @ ?c"
    by simp
  then have fmt: "sublist (as_string (format file)) ?msg"
    unfolding sublist_def by blast
  from res name fmt
  show "\<exists>msg. get_creator_function as_string file fac = Inl (runtime_error msg) \<and>
          sublist (filename file) msg \<and> sublist (as_string (format file)) msg"
    by blast
next
  assume "m_callbacks fac (format file) = Some c"
  then show "get_creator_function as_string file fac = Inr c"
    by (simp add: get_creator_function_def)
qed

theorem get_creator_function_result_witness:
  "(\<exists>msg. get_creator_function (\<lambda>_. ''PBF'') \<lparr>filename = ''a.osm.pbf'', format = 2::nat\<rparr>
            (ParserFactory_init :: (nat, nat) ParserFactory) = Inl (runtime_error msg) \<and>
          sublist ''a.osm.pbf'' msg \<and> sublist ''PBF'' msg) \<and>
   get_creator_function (\<lambda>_. ''PBF'') \<lparr>filename = ''a.osm.pbf'', format = 2::nat\<rparr>
     \<lparr>m_callbacks = [2 \<mapsto> 10::nat]\<rparr> = Inr 10"
  using get_creator_function_result
      [of "ParserFactory_init :: (nat, nat) ParserFactory"
          "\<lparr>filename = ''a.osm.pbf'', format = 2::nat\<rparr>" "\<lambda>_. ''PBF''" "10::nat"]
    get_creator_function_result
      [of "\<lparr>m_callbacks = [2 \<mapsto> 10::nat]\<rparr>"
          "\<lparr>filename = ''a.osm.pbf'', format = 2::nat\<rparr>" "\<lambda>_. ''PBF''" "10::nat"]
  by (simp add: ParserFactory_init_def)

section \<open>The drain loop and the guarded entry point\<close>

lemma discarded_simps:
  "discarded [] = []"
  "discarded (s # q) = (if s = [] then [[]] else s # discarded q)"
  by (simp_all add: discarded_def)

lemma left_over_simps:
  "left_over [] = []"
  "left_over (s # q) = (if s = [] then q else left_over q)"
  by (simp_all add: left_over_def)

lemma drain_queue_eq:
  "drain_queue p =
     (if [] \<in> set (m_input_queue p) then Returns else Blocks)
       (p\<lparr>m_input_queue := left_over (m_input_queue p),
          history := history p @ map Input_popped (discarded (m_input_queue p))\<rparr>)"
proof (induction "m_input_queue p" arbitrary: p)
  case Nil
  then have "m_input_queue p = []" by simp
  then show ?case
    by (subst drain_queue.simps) (simp add: wait_and_pop_def discarded_simps left_over_simps)
next
  case (Cons s q)
  then have q: "m_input_queue p = s # q" by simp
  let ?p' = "p\<lparr>m_input_queue := q, history := history p @ [Input_popped s]\<rparr>"
  have pop: "wait_and_pop p = Some (s, ?p')"
    by (simp add: wait_and_pop_def q)
  show ?case
  proof (cases "s = []")
    case True
    then show ?thesis
      by (subst drain_queue.simps) (simp add: pop q discarded_simps left_over_simps)
  next
    case False
    have "drain_queue p = drain_queue ?p'"
      by (subst drain_queue.simps) (simp add: pop False)
    also have "\<dots> = (if [] \<in> set q then Returns else Blocks)
        (?p'\<lparr>m_input_queue := left_over q,
             history := history ?p' @ map Input_popped (discarded q)\<rparr>)"
      using Cons.hyps(1) [of ?p'] by simp
    finally show ?thesis
      using False by (simp add: q discarded_simps left_over_simps)
  qed
qed

lemma operator_call_Returns:
  assumes "run p = Returns p1"
  shows "operator_call run p =
           (if m_input_queue_done p1 \<or> [] \<in> set (m_input_queue p1) then Returns else Blocks)
             (p1\<lparr>m_output_queue := m_output_queue p1 @ [Ready Buffer_default],
                 m_input_queue :=
                   (if m_input_queue_done p1 then m_input_queue p1
                    else left_over (m_input_queue p1)),
                 history := history p1 @ [Output_pushed (Ready Buffer_default)] @
                   (if m_input_queue_done p1 then []
                    else map Input_popped (discarded (m_input_queue p1)))\<rparr>)"
  using assms
  by (simp add: operator_call_def send_to_output_queue_def push_def drain_queue_eq Let_def)

lemma operator_call_Blocks:
  assumes "run p = Blocks p1"
  shows "operator_call run p = Blocks p1"
  using assms by (simp add: operator_call_def)

lemma operator_call_Throws:
  assumes "run p = Throws e p1" and "header_flag_ok p1"
  shows "operator_call run p =
           (if m_input_queue_done p1 \<or> [] \<in> set (m_input_queue p1) then Returns else Blocks)
             (p1\<lparr>m_header_is_done := True,
                 m_header_promise :=
                   (if m_header_promise p1 = Pending then Failed e else m_header_promise p1),
                 m_output_queue := m_output_queue p1 @ [Failed e, Ready Buffer_default],
                 m_input_queue :=
                   (if m_input_queue_done p1 then m_input_queue p1
                    else left_over (m_input_queue p1)),
                 history := history p1 @
                   (if m_header_promise p1 = Pending then [Header_resolved (Failed e)] else []) @
                   [Output_pushed (Failed e), Output_pushed (Ready Buffer_default)] @
                   (if m_input_queue_done p1 then []
                    else map Input_popped (discarded (m_input_queue p1)))\<rparr>)"
proof (cases "m_header_is_done p1")
  case True
  with assms(2) have "m_header_promise p1 \<noteq> Pending"
    by (simp add: header_flag_ok_def)
  with True assms(1) show ?thesis
    by (simp add: operator_call_def send_exception_def send_to_output_queue_def push_def
        drain_queue_eq Let_def)
next
  case False
  with assms(2) have "m_header_promise p1 = Pending"
    by (simp add: header_flag_ok_def)
  with False assms(1) show ?thesis
    by (simp add: operator_call_def header_set_exception_def set_exception_def
        send_exception_def send_to_output_queue_def push_def drain_queue_eq Let_def)
qed

text \<open>
  The handler of \<open>operator()\<close> relies on \<open>m_header_is_done\<close>: if \<open>run()\<close> throws
  after resolving the header promise without setting the flag, \<open>set_exception\<close> throws
  inside the handler and \<open>operator()\<close> is left by that exception, with nothing pushed.
\<close>

lemma operator_call_escapes:
  assumes "run p = Throws e p1" and "\<not> m_header_is_done p1" and "m_header_promise p1 \<noteq> Pending"
  shows "operator_call run p = Throws promise_already_satisfied (p1\<lparr>m_header_is_done := True\<rparr>)"
  using assms
  by (cases "m_header_promise p1")
     (simp_all add: operator_call_def header_set_exception_def set_exception_def)





lemma filter_pops:
  "filter is_Input_popped (map Input_popped q) = map Input_popped q"
  "filter is_Output_pushed (map Input_popped q) = []"
  "filter is_Header_resolved (map Input_popped q) = []"
  by (induction q) simp_all

section \<open>Properties of the guarded entry point\<close>

text \<open>
  C1, as stated, fails. On the input queue \<open>a\<close>, sentinel: after
  \<open>unflagged_header_decoder\<close> has thrown, \<open>set_exception\<close> throws inside the handler
  and \<open>operator()\<close> is left by \<open>promise_already_satisfied\<close>; the output queue holds only
  the batch that \<open>run()\<close> emitted, with no failing result and no empty batch, and the
  input queue is not drained. After \<open>early_done_decoder\<close> has thrown, \<open>operator()\<close>
  returns with the input queue undrained although the sentinel was not consumed.
\<close>

theorem operator_call_converts_failure_counterexample:
  "operator_call (unflagged_header_decoder ()) (Parser_init [''a'', ''''] [] Pending 0) =
     Throws promise_already_satisfied
       (state_of (operator_call (unflagged_header_decoder ())
          (Parser_init [''a'', ''''] [] Pending 0))) \<and>
   m_output_queue (state_of (operator_call (unflagged_header_decoder ())
       (Parser_init [''a'', ''''] [] Pending 0))) = [Ready (Buffer [''node 1''])] \<and>
   m_input_queue (state_of (operator_call (unflagged_header_decoder ())
       (Parser_init [''a'', ''''] [] Pending 0))) = [''a'', ''''] \<and>
   operator_call early_done_decoder
       (Parser_init [''a'', ''''] [] (Pending :: unit Header shared_state) 0) =
     Returns (state_of (operator_call early_done_decoder
       (Parser_init [''a'', ''''] [] (Pending :: unit Header shared_state) 0))) \<and>
   m_input_queue (state_of (operator_call early_done_decoder
       (Parser_init [''a'', ''''] [] (Pending :: unit Header shared_state) 0))) = [''a'', '''']"
  by (simp add: operator_call_def unflagged_header_decoder_def early_done_decoder_def
      header_set_value_def set_value_def header_set_exception_def set_exception_def
      send_exception_def send_to_output_queue_def push_def Parser_init_def)

text \<open>
  C1, amended. Let \<open>run()\<close> throw \<open>e\<close>, leaving the state \<open>p1\<close> in which
  \<open>m_header_is_done\<close> is set exactly if the header promise is resolved, after popping the
  chunks \<open>popped\<close> with \<open>m_input_queue_done\<close> set exactly if the sentinel was among
  them. Then \<open>operator()\<close> adds to the history, in this order: the resolution of the
  header promise with \<open>e\<close>, exactly when the promise was still pending; the push of one
  result failing with \<open>e\<close>; the push of the empty batch; and the pops of the drain loop,
  exactly when the sentinel had not been popped. The promise, the output queue and the
  input queue end accordingly, and \<open>operator()\<close> returns, unless the drain loop finds no
  sentinel and blocks.
\<close>

theorem operator_call_converts_failure:
  assumes thrown: "run p = Throws e p1"
    and header_flag: "header_flag_ok p1"
    and popped: "m_input_queue p = popped @ m_input_queue p1"
    and input_flag: "m_input_queue_done p1 = ([] \<in> set popped)"
  shows "history (state_of (operator_call run p)) =
           history p1 @
           (if m_header_promise p1 = Pending then [Header_resolved (Failed e)] else []) @
           [Output_pushed (Failed e)] @
           [Output_pushed (Ready Buffer_default)] @
           (if [] \<in> set popped then []
            else map Input_popped (discarded (m_input_queue p1))) \<and>
         m_header_promise (state_of (operator_call run p)) =
           (if m_header_promise p1 = Pending then Failed e else m_header_promise p1) \<and>
         m_output_queue (state_of (operator_call run p)) =
           m_output_queue p1 @ [Failed e, Ready Buffer_default] \<and>
         m_input_queue (state_of (operator_call run p)) =
           (if [] \<in> set popped then m_input_queue p1 else left_over (m_input_queue p1)) \<and>
         operator_call run p =
           (if [] \<in> set popped \<or> [] \<in> set (m_input_queue p1) then Returns else Blocks)
             (state_of (operator_call run p))"
  by (simp add: operator_call_Throws [where run = run and p = p, OF thrown header_flag] input_flag)

theorem operator_call_converts_failure_witness:
  "history (state_of (operator_call failing_decoder
       (Parser_init [''a'', ''b'', ''c'', ''''] [] (Pending :: unit Header shared_state) 0))) =
     [Input_popped ''a'', Input_popped ''b'',
      Header_resolved (Failed (runtime_error ''decode error'')),
      Output_pushed (Failed (runtime_error ''decode error'')),
      Output_pushed (Ready Buffer_default),
      Input_popped ''c'', Input_popped ''''] \<and>
   m_header_promise (state_of (operator_call failing_decoder
       (Parser_init [''a'', ''b'', ''c'', ''''] [] (Pending :: unit Header shared_state) 0))) =
     Failed (runtime_error ''decode error'') \<and>
   m_output_queue (state_of (operator_call failing_decoder
       (Parser_init [''a'', ''b'', ''c'', ''''] [] (Pending :: unit Header shared_state) 0))) =
     [Failed (runtime_error ''decode error''), Ready Buffer_default] \<and>
   m_input_queue (state_of (operator_call failing_decoder
       (Parser_init [''a'', ''b'', ''c'', ''''] [] (Pending :: unit Header shared_state) 0))) = []"
proof -
  let ?p = "Parser_init [''a'', ''b'', ''c'', ''''] [] (Pending :: unit Header shared_state) 0"
  let ?p1 = "?p\<lparr>m_input_queue := [''c'', ''''],
                 history := [Input_popped ''a'', Input_popped ''b'']\<rparr>"
  have thrown: "failing_decoder ?p = Throws (runtime_error ''decode error'') ?p1"
    by (simp add: failing_decoder_def wait_and_pop_def Parser_init_def)
  have header_flag: "header_flag_ok ?p1"
    by (simp add: header_flag_ok_def Parser_init_def)
  have popped: "m_input_queue ?p = [''a'', ''b''] @ m_input_queue ?p1"
    by (simp add: Parser_init_def)
  have input_flag: "m_input_queue_done ?p1 = ([] \<in> set [''a'', ''b''])"
    by (simp add: Parser_init_def)
  from operator_call_converts_failure
    [where run = failing_decoder and p = ?p, OF thrown header_flag popped input_flag]
  show ?thesis
    by (simp add: Parser_init_def discarded_simps left_over_simps)
qed













text \<open>
  C10. If \<open>run()\<close> returns, \<open>operator()\<close> changes neither the header promise nor
  \<open>m_header_is_done\<close> and adds no resolution to the history; a promise that \<open>run()\<close>
  left pending is pending when \<open>operator()\<close> ends.
\<close>

theorem header_untouched_on_success:
  assumes ret: "run p = Returns p1"
  shows "m_header_promise (state_of (operator_call run p)) = m_header_promise p1 \<and>
         m_header_is_done (state_of (operator_call run p)) = m_header_is_done p1 \<and>
         filter is_Header_resolved (drop (length (history p1))
             (history (state_of (operator_call run p)))) = [] \<and>
         (m_header_promise p1 = Pending \<longrightarrow>
            m_header_promise (state_of (operator_call run p)) = Pending)"
  by (simp add: operator_call_Returns [where run = run and p = p, OF ret] filter_pops)

theorem header_untouched_on_success_witness:
  "m_header_promise (state_of (operator_call silent_decoder
       (Parser_init [''''] [] (Pending :: unit Header shared_state) 0))) = Pending \<and>
   m_header_is_done (state_of (operator_call silent_decoder
       (Parser_init [''''] [] (Pending :: unit Header shared_state) 0))) = False"
proof -
  let ?p = "Parser_init [''''] [] (Pending :: unit Header shared_state) 0"
  let ?p1 = "?p\<lparr>m_input_queue := [], m_input_queue_done := True,
                 history := [Input_popped '''']\<rparr>"
  have ret: "silent_decoder ?p = Returns ?p1"
    by (simp add: silent_decoder_def wait_and_pop_def Parser_init_def)
  have pending: "m_header_promise ?p1 = Pending"
    by (simp add: Parser_init_def)
  from header_untouched_on_success [where run = silent_decoder and p = ?p, OF ret] pending
  show ?thesis
    by (simp add: Parser_init_def)
qed

end
